theory Spec2Isabelle
  imports Complex_Main
begin

section \<open>Breach and Clear: the simulation core of \<^verbatim>\<open>src/app/index.tsx\<close>\<close>

text \<open>
  The game keeps its authoritative state in a mutable \<^verbatim>\<open>GameState\<close> object and a
  \<^verbatim>\<open>lastFrameRef\<close>; three callbacks change it: \<^verbatim>\<open>startGame\<close>, \<^verbatim>\<open>gameLoop\<close> (one call per
  animation frame) and \<^verbatim>\<open>handleArenaTap\<close>. They are modelled here as functions from state
  to state.

  Conventions of the model:
  \<^item> JavaScript numbers that hold coordinates, velocities and times are real numbers
    (NaN, infinities and signed zeros of IEEE doubles are not modelled); the counters
    \<^verbatim>\<open>energy\<close>, \<^verbatim>\<open>health\<close>, \<^verbatim>\<open>score\<close>, \<^verbatim>\<open>wave\<close> and the block identifiers only ever
    hold integers and are integers here.
  \<^item> The collision block of \<^verbatim>\<open>gameLoop\<close> (lines 254 to 274) decides by a strict comparison
    whether a block is destroyed, and there the last bit of a product matters: every
    arithmetic operation of that block is rounded to the nearest double, as the code
    computes it. Elsewhere arithmetic is exact.
  \<^item> \<^verbatim>\<open>Math.random()\<close> is an explicit source: the \<open>k\<close>-th call of a session returns
    \<open>random env k\<close>, a number in \<open>[0, 1)\<close>, and the session counts the calls made.
  \<^item> Haptic calls are appended to a log; animations, React state setters and the
    scheduling of the next frame do not touch the game state and are left out.
  \<^item> The arena of a device has positive width. Where the code divides by the cell
    width, an arena of width 0 would give JavaScript an infinity or NaN and gives the
    model 0; no property below is about that case.
\<close>

subsection \<open>Data\<close>

datatype GamePhase = IDLE | PLAYING | DEAD

record Block =
  id_blk :: int
  x :: real
  y :: real
  w :: real
  h :: real
  color :: string

record Ball =
  x :: real
  y :: real
  vx :: real
  vy :: real
  color :: string
  radius :: real

record GameState =
  balls :: "Ball list"
  blocks :: "Block list"
  energy :: int
  health :: int
  score :: int
  wave :: int
  speed :: real
  lastEnergyRegen :: real
  lastEscalation :: real
  blockIdCounter :: int
  phase :: GamePhase

datatype Haptic = NotifyError | NotifySuccess | NotifyWarning | ImpactHeavy | ImpactLight

text \<open>
  A session is the \<^verbatim>\<open>GameState\<close> of \<^verbatim>\<open>gsRef\<close> together with \<^verbatim>\<open>lastFrameRef\<close>, the number of
  \<^verbatim>\<open>Math.random()\<close> calls made so far and the log of haptic calls.
\<close>

record Session = GameState +
  lastFrame :: real
  randomCalls :: nat
  haptics :: "Haptic list"

text \<open>The values \<^verbatim>\<open>Math.random()\<close> can return.\<close>

typedef rand = "{r::real. 0 \<le> r \<and> r < 1}"
  by (rule exI [of _ 0]) simp

setup_lifting type_definition_rand

lift_definition half :: rand is "1 / 2"
  by simp

text \<open>
  The values the component closes over: the arena size (from the screen dimensions and
  the safe-area insets) and the random source.
\<close>

record Env =
  arenaW :: real
  arenaH :: real
  random :: "nat \<Rightarrow> rand"

definition draw :: "Env \<Rightarrow> nat \<Rightarrow> real" where
  "draw env k = Rep_rand (random env k)"

subsection \<open>Constants\<close>

definition BLOCK_COLORS :: "string list" where
  "BLOCK_COLORS = [''#00ffcc'', ''#00e5ff'', ''#18ffff'', ''#64ffda'', ''#1de9b6'']"

definition BALL_COLORS :: "string list" where
  "BALL_COLORS = [''#ff1744'', ''#ff9100'', ''#d500f9'']"

definition BALL_RADIUS :: real where "BALL_RADIUS = 13"
definition BLOCK_H :: real where "BLOCK_H = 36"
definition MAX_ENERGY :: int where "MAX_ENERGY = 8"
definition MAX_HEALTH :: int where "MAX_HEALTH = 5"
definition ENERGY_REGEN_MS :: real where "ENERGY_REGEN_MS = 900"
definition ESCALATION_MS :: real where "ESCALATION_MS = 15000"
definition INITIAL_SPEED :: real where "INITIAL_SPEED = 4.5"
definition SPEED_STEP :: real where "SPEED_STEP = 1.2"
definition COLS :: real where "COLS = 8"

definition cellW :: "Env \<Rightarrow> real" where
  "cellW env = arenaW env / COLS"

subsection \<open>Library functions\<close>

text \<open>
  \<^verbatim>\<open>Math.atan2(y, x)\<close>: the angle of the point \<open>(x, y)\<close> in \<open>(-\<pi>, \<pi>]\<close>, and \<open>0\<close> at the
  origin.
\<close>

definition atan2 :: "real \<Rightarrow> real \<Rightarrow> real" where
  "atan2 b a =
     (if 0 < a then arctan (b / a)
      else if a < 0 then (if 0 \<le> b then arctan (b / a) + pi else arctan (b / a) - pi)
      else if 0 < b then pi / 2
      else if b < 0 then - (pi / 2)
      else 0)"

text \<open>
  The rounding of IEEE 754 binary64 arithmetic, to the nearest double with ties to the
  even significand: \<open>round64 v\<close> is the double that an operation with exact result \<open>v\<close>
  returns. Doubles have 53 significant bits and exponents from \<open>-1022\<close> on (below that the
  spacing stays that of the subnormal numbers). Results of magnitude \<open>2^1024\<close> and more,
  which overflow to an infinity, are outside the model.
\<close>

definition roundHalfEven :: "real \<Rightarrow> int" where
  "roundHalfEven t =
     (let f = \<lfloor>t\<rfloor>; d = t - of_int f
      in if d < 1 / 2 then f else if 1 / 2 < d then f + 1 else if even f then f else f + 1)"

definition round64 :: "real \<Rightarrow> real" where
  "round64 v =
     (if v = 0 then 0
      else
        (let e = max \<lfloor>log 2 \<bar>v\<bar>\<rfloor> (- 1022);
             ulp = 2 powr of_int (e - 52)
         in of_int (roundHalfEven (v / ulp)) * ulp))"

text \<open>\<^verbatim>\<open>blocks.splice(i, 1)\<close>: the list without its element at index \<open>i\<close>.\<close>

definition splice1 :: "nat \<Rightarrow> 'a list \<Rightarrow> 'a list" where
  "splice1 i xs = take i xs @ drop (Suc i) xs"

subsection \<open>The entity factory\<close>

text \<open>
  \<^verbatim>\<open>randomBlockColor\<close> makes one call of \<^verbatim>\<open>Math.random()\<close>, the \<open>k\<close>-th.
\<close>

definition randomBlockColor :: "Env \<Rightarrow> nat \<Rightarrow> string" where
  "randomBlockColor env k =
     BLOCK_COLORS ! nat \<lfloor>draw env k * real (length BLOCK_COLORS)\<rfloor>"

text \<open>
  \<^verbatim>\<open>makeBall(arenaW, speed, colorIdx)\<close> makes four calls of \<^verbatim>\<open>Math.random()\<close>, starting with
  the \<open>k\<close>-th: the angle, the sign of \<open>vx\<close>, then \<open>x\<close> and \<open>y\<close>.
\<close>

definition makeBall :: "Env \<Rightarrow> nat \<Rightarrow> real \<Rightarrow> real \<Rightarrow> nat \<Rightarrow> Ball" where
  "makeBall env k arenaW0 speed0 colorIdx =
     (let angle = (draw env k * (150 - 30) + 30) * (pi / 180);
          vx0 = cos angle * speed0 * (if draw env (k + 1) > 0.5 then 1 else - 1);
          vy0 = sin angle * speed0
      in \<lparr> x = BALL_RADIUS + draw env (k + 2) * (arenaW0 - BALL_RADIUS * 2),
           y = BALL_RADIUS + 20 + draw env (k + 3) * 60,
           vx = vx0,
           vy = \<bar>vy0\<bar>,
           color = BALL_COLORS ! (colorIdx mod length BALL_COLORS),
           radius = BALL_RADIUS \<rparr>)"

subsection \<open>Damage\<close>

definition handleCoreDamage :: "Session \<Rightarrow> Session" where
  "handleCoreDamage s =
     (let s1 = s\<lparr>health := max 0 (health s - 1), haptics := haptics s @ [NotifyError]\<rparr>
      in if health s1 \<le> 0 then s1\<lparr>phase := DEAD\<rparr> else s1)"

subsection \<open>The steps of one frame\<close>

text \<open>Energy regeneration, lines 200 to 205 of \<^verbatim>\<open>gameLoop\<close>.\<close>

definition regenStep :: "real \<Rightarrow> Session \<Rightarrow> Session" where
  "regenStep timestamp s =
     (if timestamp - lastEnergyRegen s \<ge> ENERGY_REGEN_MS then
        (let s1 = (if energy s < MAX_ENERGY
                   then s\<lparr>energy := min MAX_ENERGY (energy s + 1)\<rparr> else s)
         in s1\<lparr>lastEnergyRegen := timestamp\<rparr>)
      else s)"

text \<open>The renormalisation of one ball to the new speed, lines 214 to 216.\<close>

definition renormalize :: "real \<Rightarrow> Ball \<Rightarrow> Ball" where
  "renormalize speed1 ball =
     (let angle = atan2 (vy ball) (vx ball)
      in ball\<lparr>vx := cos angle * speed1, vy := sin angle * speed1\<rparr>)"

text \<open>Escalation, lines 207 to 221 of \<^verbatim>\<open>gameLoop\<close>.\<close>

definition escalationStep :: "Env \<Rightarrow> real \<Rightarrow> Session \<Rightarrow> Session" where
  "escalationStep env timestamp s =
     (if timestamp - lastEscalation s \<ge> ESCALATION_MS then
        (let s1 = s\<lparr>wave := wave s + 1\<rparr>;
             s2 = (if length (balls s1) < 3 then
                     s1\<lparr>balls := balls s1 @
                            [makeBall env (randomCalls s1) (arenaW env) (speed s1)
                               (length (balls s1))],
                         randomCalls := randomCalls s1 + 4\<rparr>
                   else
                     (let speed1 = speed s1 + SPEED_STEP
                      in s1\<lparr>speed := speed1, balls := map (renormalize speed1) (balls s1)\<rparr>))
         in s2\<lparr>lastEscalation := timestamp, haptics := haptics s2 @ [NotifySuccess]\<rparr>)
      else s)"

text \<open>Position integration, lines 227 and 228.\<close>

definition integrate :: "real \<Rightarrow> Ball \<Rightarrow> Ball" where
  "integrate factor ball =
     (let b1 = ball\<lparr>x := x ball + vx ball * factor\<rparr>
      in b1\<lparr>y := y b1 + vy b1 * factor\<rparr>)"

text \<open>The left, right and top walls, lines 230 to 241.\<close>

definition resolveWalls :: "Env \<Rightarrow> Ball \<Rightarrow> Ball" where
  "resolveWalls env ball =
     (let b1 = (if x ball - radius ball \<le> 0
                then ball\<lparr>x := radius ball, vx := \<bar>vx ball\<bar>\<rparr> else ball);
          b2 = (if x b1 + radius b1 \<ge> arenaW env
                then b1\<lparr>x := arenaW env - radius b1, vx := - \<bar>vx b1\<bar>\<rparr> else b1)
      in if y b2 - radius b2 \<le> 0
         then b2\<lparr>y := radius b2, vy := \<bar>vy b2\<bar>\<rparr> else b2)"

text \<open>
  The respawn after a breach, lines 245 to 249: four calls of \<^verbatim>\<open>Math.random()\<close>, starting
  with the \<open>k\<close>-th: \<open>x\<close>, \<open>y\<close>, the angle and the sign of \<open>vx\<close>.
\<close>

definition respawn :: "Env \<Rightarrow> nat \<Rightarrow> real \<Rightarrow> Ball \<Rightarrow> Ball" where
  "respawn env k speed0 ball =
     (let b1 = ball\<lparr>x := radius ball + draw env k * (arenaW env - radius ball * 2)\<rparr>;
          b2 = b1\<lparr>y := radius b1 + 20 + draw env (k + 1) * 40\<rparr>;
          angle = (draw env (k + 2) * (150 - 30) + 30) * (pi / 180);
          b3 = b2\<lparr>vx := cos angle * speed0 * (if draw env (k + 3) > 0.5 then 1 else - 1)\<rparr>
      in b3\<lparr>vy := \<bar>sin angle * speed0\<bar>\<rparr>)"

text \<open>
  The collision block, lines 257 to 271, in double arithmetic: the nearest point of a
  block's rectangle to the centre of a ball (\<^verbatim>\<open>nearX\<close>, \<^verbatim>\<open>nearY\<close>), the offsets of the centre
  from it (\<^verbatim>\<open>dx\<close>, \<^verbatim>\<open>dy\<close>), and the test of line 261.
\<close>

definition nearX :: "Ball \<Rightarrow> Block \<Rightarrow> real" where
  "nearX ball blk = max (Block.x blk) (min (x ball) (round64 (Block.x blk + w blk)))"

definition nearY :: "Ball \<Rightarrow> Block \<Rightarrow> real" where
  "nearY ball blk = max (Block.y blk) (min (y ball) (round64 (Block.y blk + h blk)))"

definition offsetX :: "Ball \<Rightarrow> Block \<Rightarrow> real" where
  "offsetX ball blk = round64 (x ball - nearX ball blk)"

definition offsetY :: "Ball \<Rightarrow> Block \<Rightarrow> real" where
  "offsetY ball blk = round64 (y ball - nearY ball blk)"

definition hits :: "Ball \<Rightarrow> Block \<Rightarrow> bool" where
  "hits ball blk =
     (let dx = offsetX ball blk; dy = offsetY ball blk
      in round64 (round64 (dx * dx) + round64 (dy * dy))
           < round64 (radius ball * radius ball))"

text \<open>The reflection off a block that is hit, lines 263 to 271.\<close>

definition bounce :: "Ball \<Rightarrow> Block \<Rightarrow> Ball" where
  "bounce ball blk =
     (let dx = offsetX ball blk; dy = offsetY ball blk;
          overlapX = round64 (radius ball - \<bar>dx\<bar>);
          overlapY = round64 (radius ball - \<bar>dy\<bar>)
      in if overlapX < overlapY then
           (let b1 = ball\<lparr>vx := - vx ball\<rparr>
            in b1\<lparr>x := round64 (x b1 + (if vx b1 > 0 then overlapX else - overlapX))\<rparr>)
         else
           (let b1 = ball\<lparr>vy := - vy ball\<rparr>
            in b1\<lparr>y := round64 (y b1 + (if vy b1 > 0 then overlapY else - overlapY))\<rparr>))"

text \<open>
  The scan of lines 254 to 274: the index of the first block, from index \<open>i\<close> on, that
  the ball hits, and \<open>None\<close> where the source leaves \<^verbatim>\<open>hitBlock\<close> at \<open>-1\<close>. The list is the
  part of \<^verbatim>\<open>gs.blocks\<close> from index \<open>i\<close>.
\<close>

fun hitBlock :: "Ball \<Rightarrow> nat \<Rightarrow> Block list \<Rightarrow> nat option" where
  "hitBlock ball i [] = None"
| "hitBlock ball i (blk # rest) =
     (if hits ball blk then Some i else hitBlock ball (Suc i) rest)"

text \<open>
  One iteration of the loop over the balls, lines 226 to 281, for the ball at index
  \<open>bi\<close>.
\<close>

definition stepBall :: "Env \<Rightarrow> real \<Rightarrow> nat \<Rightarrow> Session \<Rightarrow> Session" where
  "stepBall env factor bi s =
     (let ball = resolveWalls env (integrate factor (balls s ! bi))
      in if y ball + radius ball \<ge> arenaH env then
           (let s1 = handleCoreDamage s
            in s1\<lparr>balls := (balls s1)[bi := respawn env (randomCalls s1) (speed s1) ball],
                  randomCalls := randomCalls s1 + 4\<rparr>)
         else
           (case hitBlock ball 0 (blocks s) of
              None \<Rightarrow> s\<lparr>balls := (balls s)[bi := ball]\<rparr>
            | Some i \<Rightarrow>
                s\<lparr>balls := (balls s)[bi := bounce ball (blocks s ! i)],
                  blocks := splice1 i (blocks s),
                  score := score s + 10,
                  haptics := haptics s @ [ImpactHeavy]\<rparr>))"

text \<open>
  The loop over the balls, line 225: \<^verbatim>\<open>for (let bi = 0; bi < gs.balls.length; bi++)\<close>,
  from index \<open>bi\<close> on.
\<close>

function ballLoop :: "Env \<Rightarrow> real \<Rightarrow> nat \<Rightarrow> Session \<Rightarrow> Session" where
  "ballLoop env factor bi s =
     (if bi < length (balls s) then ballLoop env factor (Suc bi) (stepBall env factor bi s)
      else s)"
  by pat_completeness auto
termination
  by (relation "measure (\<lambda>(env, factor, bi, s). length (balls s) - bi)")
     (auto simp: stepBall_def handleCoreDamage_def Let_def split: option.splits)

declare ballLoop.simps [simp del]

subsection \<open>The three callbacks\<close>

text \<open>The time-scale factor of a frame, lines 195 to 198.\<close>

definition frameFactor :: "real \<Rightarrow> real \<Rightarrow> real" where
  "frameFactor timestamp lastFrame0 =
     (let lastFrame1 = (if lastFrame0 = 0 then timestamp else lastFrame0);
          dt = min (timestamp - lastFrame1) 33
      in dt / 16.67)"

definition gameLoop :: "Env \<Rightarrow> real \<Rightarrow> Session \<Rightarrow> Session" where
  "gameLoop env timestamp s =
     (if phase s \<noteq> PLAYING then s
      else
        (let factor = frameFactor timestamp (lastFrame s);
             s1 = s\<lparr>lastFrame := timestamp\<rparr>;
             s2 = regenStep timestamp s1;
             s3 = escalationStep env timestamp s2
         in ballLoop env factor 0 s3))"

definition startGame :: "Env \<Rightarrow> Session \<Rightarrow> Session" where
  "startGame env s =
     s\<lparr>health := MAX_HEALTH,
       energy := MAX_ENERGY,
       score := 0,
       wave := 1,
       speed := INITIAL_SPEED,
       blocks := [],
       blockIdCounter := 0,
       balls := [makeBall env (randomCalls s) (arenaW env) INITIAL_SPEED 0],
       randomCalls := randomCalls s + 4,
       phase := PLAYING,
       lastEnergyRegen := 0,
       lastEscalation := 0,
       lastFrame := 0\<rparr>"

text \<open>The cell of a tap and the occupancy test, lines 335 to 342.\<close>

definition snapX :: "Env \<Rightarrow> real \<Rightarrow> real" where
  "snapX env tapX = real_of_int \<lfloor>tapX / cellW env\<rfloor> * cellW env"

definition snapY :: "real \<Rightarrow> real" where
  "snapY tapY = real_of_int \<lfloor>tapY / BLOCK_H\<rfloor> * BLOCK_H"

definition occupied :: "Block list \<Rightarrow> real \<Rightarrow> real \<Rightarrow> bool" where
  "occupied bs bx by = list_ex (\<lambda>b. \<bar>Block.x b - bx\<bar> < 1 \<and> \<bar>Block.y b - by\<bar> < 1) bs"

definition handleArenaTap :: "Env \<Rightarrow> real \<Rightarrow> real \<Rightarrow> Session \<Rightarrow> Session" where
  "handleArenaTap env tapX tapY s =
     (if phase s \<noteq> PLAYING then s
      else if energy s \<le> 0 then s\<lparr>haptics := haptics s @ [NotifyWarning]\<rparr>
      else
        (let bx = snapX env tapX; by = snapY tapY
         in if occupied (blocks s) bx by then s
            else
              (let s1 = s\<lparr>energy := energy s - 1\<rparr>;
                   s2 = s1\<lparr>blockIdCounter := blockIdCounter s1 + 1\<rparr>
               in s2\<lparr>blocks := blocks s2 @
                       [\<lparr> id_blk = blockIdCounter s2, x = bx, y = by, w = cellW env,
                          h = BLOCK_H, color = randomBlockColor env (randomCalls s2) \<rparr>],
                     randomCalls := randomCalls s2 + 1,
                     haptics := haptics s2 @ [ImpactLight]\<rparr>)))"

subsection \<open>Sessions that can occur\<close>

text \<open>The state the component is mounted with, lines 132 to 146.\<close>

definition initialSession :: Session where
  "initialSession =
     \<lparr> balls = [], blocks = [], energy = MAX_ENERGY, health = MAX_HEALTH, score = 0,
       wave = 1, speed = INITIAL_SPEED, lastEnergyRegen = 0, lastEscalation = 0,
       blockIdCounter = 0, phase = IDLE, lastFrame = 0, randomCalls = 0, haptics = [] \<rparr>"

text \<open>
  The sessions reachable from the mounted state by any sequence of session starts, frames
  (with any timestamps) and taps. The effect of lines 313 to 321, which runs when the
  phase has become Playing, sets \<^verbatim>\<open>lastFrameRef\<close> to 0 once more; it is allowed at any
  time here.
\<close>

inductive reachable :: "Env \<Rightarrow> Session \<Rightarrow> bool" for env :: Env where
  mounted: "reachable env initialSession"
| start: "reachable env s \<Longrightarrow> reachable env (startGame env s)"
| frame: "reachable env s \<Longrightarrow> reachable env (gameLoop env timestamp s)"
| tap: "reachable env s \<Longrightarrow> reachable env (handleArenaTap env tapX tapY s)"
| resume: "reachable env s \<Longrightarrow> reachable env (s\<lparr>lastFrame := 0\<rparr>)"

text \<open>
  A concrete environment for examples: an arena of 400 by 600 whose random source always
  returns one half.
\<close>

definition env0 :: Env where
  "env0 = \<lparr> arenaW = 400, arenaH = 600, random = (\<lambda>_. half) \<rparr>"

text \<open>
  Two blocks in neighbouring cells of the grid of \<open>env0\<close> (cells are 50 wide and 36
  high), a ball on the line between them whose centre is at distance 12 from both, a ball
  whose centre is at distance exactly 13, its radius, from both, and a session that holds
  the first ball and the two blocks.
\<close>

definition blkA :: Block where
  "blkA = \<lparr> id_blk = 1, x = 0, y = 72, w = 50, h = 36, color = ''#00ffcc'' \<rparr>"

definition blkB :: Block where
  "blkB = \<lparr> id_blk = 2, x = 50, y = 72, w = 50, h = 36, color = ''#00e5ff'' \<rparr>"

definition ballIn :: Ball where
  "ballIn = \<lparr> x = 50, y = 120, vx = 2.7, vy = - 3.6, color = ''#ff1744'', radius = 13 \<rparr>"

definition ballTouch :: Ball where
  "ballTouch = \<lparr> x = 50, y = 121, vx = 2.7, vy = - 3.6, color = ''#ff1744'', radius = 13 \<rparr>"




text \<open>
  A ball moving straight down at speed 4.5 that is one frame away from the bottom of the
  arena of \<open>env0\<close>, and a session in full health that holds this ball alone, its last
  frame at timestamp 800.
\<close>

definition ballLow :: Ball where
  "ballLow = \<lparr> x = 200, y = 585, vx = 0, vy = 4.5, color = ''#ff1744'', radius = 13 \<rparr>"

definition sessionBreach :: Session where
  "sessionBreach = (startGame env0 initialSession)\<lparr>balls := [ballLow], lastFrame := 800\<rparr>"

text \<open>
  A session on its last unit of health, in its second wave: the ball \<open>ballLow\<close>, one
  frame away from the bottom, comes first in the list, then the ball \<open>ballIn\<close>, which
  overlaps the blocks \<open>blkA\<close> and \<open>blkB\<close>. Its last frame was at timestamp 20800.
\<close>

definition sessionLast :: Session where
  "sessionLast =
     (startGame env0 initialSession)
       \<lparr>balls := [ballLow, ballIn], blocks := [blkA, blkB], energy := 6, health := 1,
        wave := 2, lastEnergyRegen := 20000, lastEscalation := 20000, blockIdCounter := 2,
        lastFrame := 20800\<rparr>"






section \<open>Properties\<close>

subsection \<open>Fields that each step leaves alone\<close>

lemma ballLoop_done: "\<not> bi < length (balls s) \<Longrightarrow> ballLoop env factor bi s = s"
  by (subst ballLoop.simps) simp

lemma ballLoop_step:
  "bi < length (balls s)
   \<Longrightarrow> ballLoop env factor bi s = ballLoop env factor (Suc bi) (stepBall env factor bi s)"
  by (subst ballLoop.simps) simp

text \<open>What every iteration preserves, the loop preserves.\<close>

lemma ballLoop_inv:
  "(\<And>bi s. P s \<Longrightarrow> bi < length (balls s) \<Longrightarrow> P (stepBall env factor bi s)) \<Longrightarrow> P s
     \<Longrightarrow> P (ballLoop env factor bi s)"
proof (induction env factor bi s rule: ballLoop.induct)
  case (1 env factor bi s)
  show ?case
  proof (cases "bi < length (balls s)")
    case True
    have "P (stepBall env factor bi s)"
      using "1.prems" True by blast
    then have "P (ballLoop env factor (Suc bi) (stepBall env factor bi s))"
      using "1.IH" [OF True] "1.prems"(1) by blast
    then show ?thesis
      using True by (simp add: ballLoop_step)
  next
    case False
    then show ?thesis using "1.prems"(2) by (simp add: ballLoop_done)
  qed
qed

lemma handleCoreDamage_fields [simp]:
  "energy (handleCoreDamage s) = energy s"
  "wave (handleCoreDamage s) = wave s"
  "speed (handleCoreDamage s) = speed s"
  "score (handleCoreDamage s) = score s"
  "balls (handleCoreDamage s) = balls s"
  "blocks (handleCoreDamage s) = blocks s"
  "lastEnergyRegen (handleCoreDamage s) = lastEnergyRegen s"
  "lastEscalation (handleCoreDamage s) = lastEscalation s"
  "blockIdCounter (handleCoreDamage s) = blockIdCounter s"
  "lastFrame (handleCoreDamage s) = lastFrame s"
  "randomCalls (handleCoreDamage s) = randomCalls s"
  "health (handleCoreDamage s) = max 0 (health s - 1)"
  by (simp_all add: handleCoreDamage_def Let_def)

lemma stepBall_fields [simp]:
  "energy (stepBall env factor bi s) = energy s"
  "wave (stepBall env factor bi s) = wave s"
  "speed (stepBall env factor bi s) = speed s"
  "lastEnergyRegen (stepBall env factor bi s) = lastEnergyRegen s"
  "lastEscalation (stepBall env factor bi s) = lastEscalation s"
  "blockIdCounter (stepBall env factor bi s) = blockIdCounter s"
  "lastFrame (stepBall env factor bi s) = lastFrame s"
  "length (balls (stepBall env factor bi s)) = length (balls s)"
  by (simp_all add: stepBall_def Let_def split: option.splits)

lemma ballLoop_fields [simp]:
  "energy (ballLoop env factor bi s) = energy s"
  "wave (ballLoop env factor bi s) = wave s"
  "speed (ballLoop env factor bi s) = speed s"
  "lastEnergyRegen (ballLoop env factor bi s) = lastEnergyRegen s"
  "lastEscalation (ballLoop env factor bi s) = lastEscalation s"
  "blockIdCounter (ballLoop env factor bi s) = blockIdCounter s"
  "lastFrame (ballLoop env factor bi s) = lastFrame s"
  "length (balls (ballLoop env factor bi s)) = length (balls s)"
proof -
  show "energy (ballLoop env factor bi s) = energy s"
    by (rule ballLoop_inv [where P = "\<lambda>t. energy t = energy s"]) simp_all
  show "wave (ballLoop env factor bi s) = wave s"
    by (rule ballLoop_inv [where P = "\<lambda>t. wave t = wave s"]) simp_all
  show "speed (ballLoop env factor bi s) = speed s"
    by (rule ballLoop_inv [where P = "\<lambda>t. speed t = speed s"]) simp_all
  show "lastEnergyRegen (ballLoop env factor bi s) = lastEnergyRegen s"
    by (rule ballLoop_inv [where P = "\<lambda>t. lastEnergyRegen t = lastEnergyRegen s"]) simp_all
  show "lastEscalation (ballLoop env factor bi s) = lastEscalation s"
    by (rule ballLoop_inv [where P = "\<lambda>t. lastEscalation t = lastEscalation s"]) simp_all
  show "blockIdCounter (ballLoop env factor bi s) = blockIdCounter s"
    by (rule ballLoop_inv [where P = "\<lambda>t. blockIdCounter t = blockIdCounter s"]) simp_all
  show "lastFrame (ballLoop env factor bi s) = lastFrame s"
    by (rule ballLoop_inv [where P = "\<lambda>t. lastFrame t = lastFrame s"]) simp_all
  show "length (balls (ballLoop env factor bi s)) = length (balls s)"
    by (rule ballLoop_inv [where P = "\<lambda>t. length (balls t) = length (balls s)"]) simp_all
qed

lemma regenStep_fields [simp]:
  "wave (regenStep ts s) = wave s"
  "speed (regenStep ts s) = speed s"
  "health (regenStep ts s) = health s"
  "score (regenStep ts s) = score s"
  "balls (regenStep ts s) = balls s"
  "blocks (regenStep ts s) = blocks s"
  "phase (regenStep ts s) = phase s"
  "lastEscalation (regenStep ts s) = lastEscalation s"
  "blockIdCounter (regenStep ts s) = blockIdCounter s"
  "lastFrame (regenStep ts s) = lastFrame s"
  "randomCalls (regenStep ts s) = randomCalls s"
  by (simp_all add: regenStep_def Let_def)

lemma escalationStep_fields [simp]:
  "energy (escalationStep env ts s) = energy s"
  "health (escalationStep env ts s) = health s"
  "score (escalationStep env ts s) = score s"
  "blocks (escalationStep env ts s) = blocks s"
  "phase (escalationStep env ts s) = phase s"
  "lastEnergyRegen (escalationStep env ts s) = lastEnergyRegen s"
  "blockIdCounter (escalationStep env ts s) = blockIdCounter s"
  "lastFrame (escalationStep env ts s) = lastFrame s"
  by (simp_all add: escalationStep_def Let_def)

lemma regenStep_energy:
  "energy (regenStep ts s) =
     (if ts - lastEnergyRegen s \<ge> ENERGY_REGEN_MS \<and> energy s < MAX_ENERGY
      then energy s + 1 else energy s)"
  by (simp add: regenStep_def Let_def)

lemma regenStep_lastEnergyRegen:
  "lastEnergyRegen (regenStep ts s) =
     (if ts - lastEnergyRegen s \<ge> ENERGY_REGEN_MS then ts else lastEnergyRegen s)"
  by (simp add: regenStep_def Let_def)

lemma escalationStep_wave:
  "wave (escalationStep env ts s) =
     (if ts - lastEscalation s \<ge> ESCALATION_MS then wave s + 1 else wave s)"
  by (simp add: escalationStep_def Let_def)

lemma escalationStep_lastEscalation:
  "lastEscalation (escalationStep env ts s) =
     (if ts - lastEscalation s \<ge> ESCALATION_MS then ts else lastEscalation s)"
  by (simp add: escalationStep_def Let_def)

lemma draw_env0 [simp]: "draw env0 k = 1 / 2"
  by (simp add: draw_def env0_def half.rep_eq)

lemma env0_fields [simp]: "arenaW env0 = 400" "arenaH env0 = 600"
  by (simp_all add: env0_def)

lemma gameLoop_playing:
  "phase s = PLAYING \<Longrightarrow>
     gameLoop env ts s
       = ballLoop env (frameFactor ts (lastFrame s)) 0
           (escalationStep env ts (regenStep ts (s\<lparr>lastFrame := ts\<rparr>)))"
  by (simp add: gameLoop_def Let_def)

lemma ballLoop_single:
  "length (balls s) = 1 \<Longrightarrow> ballLoop env factor 0 s = stepBall env factor 0 s"
  by (simp add: ballLoop_step ballLoop_done)

subsection \<open>Regeneration and escalation fire at most once per frame\<close>

text \<open>
  Claim C10. In one frame, whatever the time since the last regeneration or the last
  escalation, energy goes up by at most 1 and the wave counter by at most 1: each check
  fires at most once and, when it fires, sets its timestamp to the frame's timestamp, so
  intervals that were missed are not made up for.
\<close>

theorem gameLoop_fires_once:
  "energy (gameLoop env timestamp s) =
     (if phase s = PLAYING \<and> timestamp - lastEnergyRegen s \<ge> ENERGY_REGEN_MS
         \<and> energy s < MAX_ENERGY
      then energy s + 1 else energy s)
   \<and> wave (gameLoop env timestamp s) =
     (if phase s = PLAYING \<and> timestamp - lastEscalation s \<ge> ESCALATION_MS
      then wave s + 1 else wave s)
   \<and> energy (gameLoop env timestamp s) \<le> energy s + 1
   \<and> wave (gameLoop env timestamp s) \<le> wave s + 1
   \<and> lastEnergyRegen (gameLoop env timestamp s) =
     (if phase s = PLAYING \<and> timestamp - lastEnergyRegen s \<ge> ENERGY_REGEN_MS
      then timestamp else lastEnergyRegen s)
   \<and> lastEscalation (gameLoop env timestamp s) =
     (if phase s = PLAYING \<and> timestamp - lastEscalation s \<ge> ESCALATION_MS
      then timestamp else lastEscalation s)"
  by (simp add: gameLoop_def Let_def regenStep_energy regenStep_lastEnergyRegen
      escalationStep_wave escalationStep_lastEscalation)

text \<open>
  An instance of C10: a session started and drained to energy 3 whose first frame comes at
  timestamp 1000000, more than 1100 regeneration intervals and 66 escalation intervals
  after the stored timestamps. Energy goes to 4 and the wave to 2, no further.
\<close>

theorem gameLoop_fires_once_witness:
  "energy (gameLoop env0 1000000 ((startGame env0 initialSession)\<lparr>energy := 3\<rparr>)) = 4
   \<and> wave (gameLoop env0 1000000 ((startGame env0 initialSession)\<lparr>energy := 3\<rparr>)) = 2
   \<and> lastEnergyRegen (gameLoop env0 1000000 ((startGame env0 initialSession)\<lparr>energy := 3\<rparr>))
       = 1000000
   \<and> lastEscalation (gameLoop env0 1000000 ((startGame env0 initialSession)\<lparr>energy := 3\<rparr>))
       = 1000000"
  using gameLoop_fires_once [of env0 1000000 "(startGame env0 initialSession)\<lparr>energy := 3\<rparr>"]
  by (simp add: startGame_def ENERGY_REGEN_MS_def ESCALATION_MS_def MAX_ENERGY_def)

subsection \<open>Energy and health stay within their bounds\<close>

lemma stepBall_health:
  "health (stepBall env factor bi s) = health s
   \<or> health (stepBall env factor bi s) = max 0 (health s - 1)"
  by (simp add: stepBall_def Let_def split: option.splits)

lemma ballLoop_health_bounds:
  "0 \<le> health s \<and> health s \<le> MAX_HEALTH
   \<Longrightarrow> 0 \<le> health (ballLoop env factor bi s) \<and> health (ballLoop env factor bi s) \<le> MAX_HEALTH"
proof (rule ballLoop_inv [where P = "\<lambda>t. 0 \<le> health t \<and> health t \<le> MAX_HEALTH"])
  fix bi and t :: Session
  assume "0 \<le> health t \<and> health t \<le> MAX_HEALTH"
  then show "0 \<le> health (stepBall env factor bi t) \<and> health (stepBall env factor bi t) \<le> MAX_HEALTH"
    using stepBall_health [of env factor bi t] by auto
qed

lemma gameLoop_health_bounds:
  "0 \<le> health s \<and> health s \<le> MAX_HEALTH
   \<Longrightarrow> 0 \<le> health (gameLoop env ts s) \<and> health (gameLoop env ts s) \<le> MAX_HEALTH"
  unfolding gameLoop_def Let_def
  by (simp add: ballLoop_health_bounds)

lemma gameLoop_energy_bounds:
  "0 \<le> energy s \<and> energy s \<le> MAX_ENERGY
   \<Longrightarrow> 0 \<le> energy (gameLoop env ts s) \<and> energy (gameLoop env ts s) \<le> MAX_ENERGY"
  by (simp add: gameLoop_def Let_def regenStep_energy)

lemma handleArenaTap_energy:
  "energy (handleArenaTap env tapX tapY s) =
     (if phase s = PLAYING \<and> 0 < energy s
         \<and> \<not> occupied (blocks s) (snapX env tapX) (snapY tapY)
      then energy s - 1 else energy s)"
  by (simp add: handleArenaTap_def Let_def)

lemma handleArenaTap_health [simp]:
  "health (handleArenaTap env tapX tapY s) = health s"
  by (simp add: handleArenaTap_def Let_def)

text \<open>
  Claim C9. In every reachable session, that is after every session start, every frame
  and every tap, energy lies in \<open>[0, MAX_ENERGY]\<close> and health in \<open>[0, MAX_HEALTH]\<close>.
\<close>

theorem resources_within_bounds:
  "reachable env s \<Longrightarrow>
     0 \<le> energy s \<and> energy s \<le> MAX_ENERGY \<and> 0 \<le> health s \<and> health s \<le> MAX_HEALTH"
proof (induction rule: reachable.induct)
  case mounted
  show ?case by (simp add: initialSession_def MAX_ENERGY_def MAX_HEALTH_def)
next
  case (start s)
  show ?case by (simp add: startGame_def MAX_ENERGY_def MAX_HEALTH_def)
next
  case (frame s timestamp)
  then show ?case
    using gameLoop_health_bounds [of s env timestamp] gameLoop_energy_bounds [of s env timestamp]
    by simp
next
  case (tap s tapX tapY)
  then show ?case by (simp add: handleArenaTap_energy)
next
  case (resume s)
  then show ?case by simp
qed

text \<open>An instance of C9: a session start, a frame and a tap.\<close>

theorem resources_within_bounds_witness:
  "reachable env0 (handleArenaTap env0 10 10 (gameLoop env0 1000 (startGame env0 initialSession)))
   \<and> 0 \<le> energy (handleArenaTap env0 10 10 (gameLoop env0 1000 (startGame env0 initialSession)))
   \<and> energy (handleArenaTap env0 10 10 (gameLoop env0 1000 (startGame env0 initialSession))) \<le> 8
   \<and> 0 \<le> health (handleArenaTap env0 10 10 (gameLoop env0 1000 (startGame env0 initialSession)))
   \<and> health (handleArenaTap env0 10 10 (gameLoop env0 1000 (startGame env0 initialSession))) \<le> 5"
proof -
  have r: "reachable env0
      (handleArenaTap env0 10 10 (gameLoop env0 1000 (startGame env0 initialSession)))"
    by (intro reachable.intros)
  show ?thesis
    using r resources_within_bounds [OF r] by (simp add: MAX_ENERGY_def MAX_HEALTH_def)
qed

subsection \<open>Placement\<close>



subsection \<open>Rounding to the nearest double\<close>

lemma roundHalfEven_of_int [simp]: "roundHalfEven (of_int j) = j"
  by (simp add: roundHalfEven_def)

lemma floor_log2_at:
  fixes v :: real and k :: nat
  assumes lo: "2 ^ 52 \<le> \<bar>v\<bar> * 2 ^ k" and hi: "\<bar>v\<bar> * 2 ^ k < 2 ^ 53"
  shows "\<lfloor>log 2 \<bar>v\<bar>\<rfloor> = 52 - int k"
proof -
  have pos: "0 < \<bar>v\<bar>"
    using lo by (cases "v = 0") simp_all
  have "(2::real) powr (52 - real k) = 2 ^ 52 / 2 ^ k"
    by (simp add: powr_diff powr_realpow)
  also have "\<dots> \<le> \<bar>v\<bar>"
    using lo by (simp add: field_simps)
  finally have a: "52 - real k \<le> log 2 \<bar>v\<bar>"
    using pos by (simp add: le_log_iff)
  have "\<bar>v\<bar> < 2 ^ 53 / 2 ^ k"
    using hi by (simp add: field_simps)
  also have "\<dots> = (2::real) powr (53 - real k)"
    by (simp add: powr_diff powr_realpow)
  finally have b: "log 2 \<bar>v\<bar> < 53 - real k"
    using pos by (simp add: log_less_iff)
  show ?thesis
    by (rule floor_unique) (use a b in simp_all)
qed

text \<open>
  The value of \<open>round64\<close> at a number whose binary exponent is known: \<open>v\<close> lies between
  \<open>2^(52 - k)\<close> and \<open>2^(53 - k)\<close>, and doubles there are the multiples of \<open>2^(- k)\<close>.
\<close>

lemma round64_at:
  fixes v :: real and k :: nat
  assumes k: "k \<le> 1074" and lo: "2 ^ 52 \<le> \<bar>v\<bar> * 2 ^ k" and hi: "\<bar>v\<bar> * 2 ^ k < 2 ^ 53"
  shows "round64 v = of_int (roundHalfEven (v * 2 ^ k)) / 2 ^ k"
proof -
  have nz: "v \<noteq> 0"
    using lo by auto
  have e: "max \<lfloor>log 2 \<bar>v\<bar>\<rfloor> (- 1022) = 52 - int k"
    using floor_log2_at [OF lo hi] k by simp
  have u: "(2::real) powr of_int (52 - int k - 52) = 1 / 2 ^ k"
    by (simp add: powr_minus powr_realpow inverse_eq_divide)
  show ?thesis
    unfolding round64_def Let_def e u using nz by simp
qed

text \<open>Integers of magnitude below \<open>2^53\<close> are doubles: rounding leaves them as they are.\<close>

lemma round64_of_int:
  assumes "\<bar>n\<bar> < 2 ^ 53"
  shows "round64 (of_int n) = of_int n"
proof (cases "n = 0")
  case True
  then show ?thesis by (simp add: round64_def)
next
  case False
  let ?v = "real_of_int n"
  define e where "e = \<lfloor>log 2 \<bar>?v\<bar>\<rfloor>"
  have one: "1 \<le> \<bar>?v\<bar>"
    using False by (simp flip: of_int_abs add: of_int_le_iff [of 1, simplified])
  have "real_of_int \<bar>n\<bar> < real_of_int (2 ^ 53)"
    using assms by (simp only: of_int_less_iff)
  then have top: "\<bar>?v\<bar> < 2 ^ 53"
    by simp
  have p53: "(2::real) powr 53 = 2 ^ 53"
    using powr_realpow [of 2 53] by simp
  have "0 \<le> log 2 \<bar>?v\<bar>"
    using one by simp
  then have lo: "0 \<le> e"
    by (simp add: e_def)
  have "log 2 \<bar>?v\<bar> < 53"
    using one top by (simp add: log_less_iff p53 del: power_numeral)
  then have hi: "e \<le> 52"
    unfolding e_def by linarith
  define m where "m = nat (52 - e)"
  have em: "e - 52 = - int m"
    using hi by (simp add: m_def)
  have u: "(2::real) powr of_int (e - 52) = 1 / 2 ^ m"
    unfolding em by (simp add: powr_minus powr_realpow inverse_eq_divide)
  have "?v / (1 / 2 ^ m) = of_int (n * 2 ^ m)"
    by simp
  then have r: "roundHalfEven (?v / (1 / 2 ^ m)) = n * 2 ^ m"
    by (simp only: roundHalfEven_of_int)
  have mx: "max \<lfloor>log 2 \<bar>?v\<bar>\<rfloor> (- 1022) = e"
    using lo by (simp add: e_def)
  show ?thesis
    unfolding round64_def Let_def mx u r using False by simp
qed

lemma round64_zero [simp]: "round64 0 = 0"
  by (simp add: round64_def)

lemma round64_numeral:
  "(numeral n :: int) < 2 ^ 53 \<Longrightarrow> round64 (numeral n) = numeral n"
  using round64_of_int [of "numeral n"] by simp

subsection \<open>Collision with the blocks\<close>




lemma hits_iff:
  "hits ball blk \<longleftrightarrow>
     round64 (round64 (offsetX ball blk * offsetX ball blk)
              + round64 (offsetY ball blk * offsetY ball blk))
       < round64 (radius ball * radius ball)"
  by (simp add: hits_def Let_def)










lemma blk_fields:
  "Block.x blkA = 0" "Block.y blkA = 72" "w blkA = 50" "h blkA = 36"
  "Block.x blkB = 50" "Block.y blkB = 72" "w blkB = 50" "h blkB = 36"
  by (simp_all add: blkA_def blkB_def)






lemma edge_sum: "round64 169 = 169"
  using round64_at [of 45 "169"] by (simp add: roundHalfEven_def)







lemma ball_fields:
  "x ballTouch = 50" "y ballTouch = 121" "radius ballTouch = 13"
  "x ballIn = 50" "y ballIn = 120" "radius ballIn = 13"
  by (simp_all add: ballTouch_def ballIn_def)


subsection \<open>The magnitude and the direction of velocities\<close>






lemma renormalize_fields [simp]:
  "x (renormalize sp ball) = x ball"
  "y (renormalize sp ball) = y ball"
  "radius (renormalize sp ball) = radius ball"
  "Ball.color (renormalize sp ball) = Ball.color ball"
  by (simp_all add: renormalize_def Let_def)

subsection \<open>Escalation\<close>


lemma escalationStep_balls:
  "balls (escalationStep env ts s) =
     (if ts - lastEscalation s \<ge> ESCALATION_MS then
        (if length (balls s) < 3
         then balls s @ [makeBall env (randomCalls s) (arenaW env) (speed s) (length (balls s))]
         else map (renormalize (speed s + SPEED_STEP)) (balls s))
      else balls s)"
  by (simp add: escalationStep_def Let_def)



subsection \<open>Breaches\<close>



lemma respawn_fields:
  "x (respawn env k sp ball) = radius ball + draw env k * (arenaW env - radius ball * 2)"
  "y (respawn env k sp ball) = radius ball + 20 + draw env (k + 1) * 40"
  "vy (respawn env k sp ball) = \<bar>sin ((draw env (k + 2) * (150 - 30) + 30) * (pi / 180)) * sp\<bar>"
  "radius (respawn env k sp ball) = radius ball"
  by (simp_all add: respawn_def Let_def)














lemma sessionBreach_fields:
  "health sessionBreach = 5" "phase sessionBreach = PLAYING"
  "balls sessionBreach = [ballLow]" "blocks sessionBreach = []"
  "lastFrame sessionBreach = 800"
  "lastEnergyRegen sessionBreach = 0" "lastEscalation sessionBreach = 0"
  "speed sessionBreach = 4.5" "score sessionBreach = 0"
  by (simp_all add: sessionBreach_def startGame_def MAX_HEALTH_def INITIAL_SPEED_def)


subsection \<open>The time-scale factor of a frame\<close>

text \<open>
  Claim C3 says that the elapsed time is clamped to a non-negative value, so that no ball
  is integrated with a negative factor even when the timestamp is smaller than the
  previous one. The code clamps from above only. In the session \<open>sessionBreach\<close>, whose
  last frame was at 800, a frame with timestamp 700 has the factor \<open>- 100 / 16.67\<close>, and
  the ball, whose velocity points down (\<open>vy = 4.5\<close>), moves up from \<open>y = 585\<close>.
\<close>

theorem negative_factor_counterexample:
  "lastFrame sessionBreach = 800
   \<and> frameFactor 700 (lastFrame sessionBreach) = - 100 / 16.67
   \<and> frameFactor 700 (lastFrame sessionBreach) < 0
   \<and> gameLoop env0 700 sessionBreach
       = stepBall env0 (frameFactor 700 (lastFrame sessionBreach)) 0
           (sessionBreach\<lparr>lastFrame := 700\<rparr>)
   \<and> vy (balls sessionBreach ! 0) = 4.5
   \<and> y (balls sessionBreach ! 0) = 585
   \<and> y (balls (gameLoop env0 700 sessionBreach) ! 0) = 585 + 4.5 * (- 100 / 16.67)
   \<and> y (balls (gameLoop env0 700 sessionBreach) ! 0) < y (balls sessionBreach ! 0)"
proof -
  have f: "frameFactor 700 800 = - 100 / 16.67"
    by (simp add: frameFactor_def Let_def)
  have g: "gameLoop env0 700 sessionBreach
      = stepBall env0 (frameFactor 700 800) 0 (sessionBreach\<lparr>lastFrame := 700\<rparr>)"
    by (simp add: gameLoop_playing sessionBreach_fields regenStep_def escalationStep_def
        ENERGY_REGEN_MS_def ESCALATION_MS_def ballLoop_single)
  have bl: "radius ballLow = 13" "y ballLow = 585" "vy ballLow = 4.5"
    by (simp_all add: ballLow_def)
  have "balls (stepBall env0 (- 100 / 16.67) 0 (sessionBreach\<lparr>lastFrame := 700\<rparr>))
      = [ballLow\<lparr>y := 585 + 4.5 * (- 100 / 16.67)\<rparr>]"
    by (simp add: stepBall_def Let_def sessionBreach_fields resolveWalls_def integrate_def
        ballLow_def)
  then show ?thesis
    unfolding g by (simp add: sessionBreach_fields bl f)
qed

text \<open>
  Claim C3 as amended. The elapsed time is clamped from above, at 33 milliseconds, and not
  from below: the time-scale factor of a frame is at most \<open>33 / 16.67\<close>; it is 0 in the
  first frame of a session (the stored timestamp is 0); it is non-negative whenever the
  timestamp is not smaller than the previous one; and it is negative when the timestamp
  is smaller than a previous one other than 0. A Playing frame runs the loop over the
  balls with this factor.
\<close>

theorem frameFactor_bounds:
  "frameFactor timestamp lastFrame0 \<le> 33 / 16.67
   \<and> (lastFrame0 = 0 \<longrightarrow> frameFactor timestamp lastFrame0 = 0)
   \<and> (lastFrame0 \<le> timestamp \<longrightarrow> 0 \<le> frameFactor timestamp lastFrame0)
   \<and> (lastFrame0 \<noteq> 0 \<and> timestamp < lastFrame0 \<longrightarrow> frameFactor timestamp lastFrame0 < 0)
   \<and> (phase s = PLAYING \<and> lastFrame s = lastFrame0 \<longrightarrow>
         gameLoop env timestamp s
           = ballLoop env (frameFactor timestamp lastFrame0) 0
               (escalationStep env timestamp (regenStep timestamp (s\<lparr>lastFrame := timestamp\<rparr>))))"
  by (auto simp: frameFactor_def Let_def gameLoop_playing min_def divide_le_cancel)

text \<open>
  Instances of C3 as amended: one reference frame after the last frame the factor is 1;
  in the first frame of a session it is 0; after a long pause it is \<open>33 / 16.67\<close>.
\<close>

theorem frameFactor_bounds_witness:
  "frameFactor 816.67 800 = 1 \<and> frameFactor 20000 0 = 0
   \<and> frameFactor 900000 800 = 33 / 16.67
   \<and> frameFactor 700 800 < 0"
  using frameFactor_bounds [of "816.67" 800 sessionBreach env0]
    frameFactor_bounds [of 20000 0 sessionBreach env0]
    frameFactor_bounds [of 700 800 sessionBreach env0]
  by (simp add: frameFactor_def Let_def)

subsection \<open>The first frame after a session start\<close>

lemma startGame_fields:
  "phase (startGame env s) = PLAYING"
  "lastEnergyRegen (startGame env s) = 0"
  "lastEscalation (startGame env s) = 0"
  "lastFrame (startGame env s) = 0"
  "wave (startGame env s) = 1"
  "energy (startGame env s) = MAX_ENERGY"
  "health (startGame env s) = MAX_HEALTH"
  "speed (startGame env s) = INITIAL_SPEED"
  "length (balls (startGame env s)) = 1"
  by (simp_all add: startGame_def)

text \<open>
  Claim C2 says that after a session start the first frame measures the elapsed time for
  regeneration and escalation from its own timestamp, so that a first frame with a large
  timestamp triggers neither. \<^verbatim>\<open>startGame\<close> stores 0 in both timestamps and in
  \<^verbatim>\<open>lastFrameRef\<close>, but \<^verbatim>\<open>gameLoop\<close> treats 0 as "not yet started" for \<^verbatim>\<open>lastFrameRef\<close> only.
  With a first frame at timestamp 20000 the frame's own elapsed time is 0, while
  regeneration and escalation see 20000 elapsed: both fire, the wave counter goes from 1
  to 2 and a second ball is spawned in the very first frame. This holds in every
  environment and from every previous session.
\<close>

theorem first_frame_escalates:
  "lastEnergyRegen (startGame env s) = 0
   \<and> lastEscalation (startGame env s) = 0
   \<and> lastFrame (startGame env s) = 0
   \<and> wave (startGame env s) = 1
   \<and> length (balls (startGame env s)) = 1
   \<and> frameFactor 20000 (lastFrame (startGame env s)) = 0
   \<and> wave (gameLoop env 20000 (startGame env s)) = 2
   \<and> length (balls (gameLoop env 20000 (startGame env s))) = 2
   \<and> lastEscalation (gameLoop env 20000 (startGame env s)) = 20000
   \<and> lastEnergyRegen (gameLoop env 20000 (startGame env s)) = 20000"
  by (simp add: startGame_fields gameLoop_playing escalationStep_wave escalationStep_balls
      escalationStep_lastEscalation regenStep_lastEnergyRegen frameFactor_def
      ESCALATION_MS_def ENERGY_REGEN_MS_def)

subsection \<open>The frame in which health reaches zero\<close>

lemma handleCoreDamage_terminal:
  "health s \<le> 1 \<Longrightarrow>
     health (handleCoreDamage s) = 0 \<and> phase (handleCoreDamage s) = DEAD"
  by (simp add: handleCoreDamage_def Let_def)

lemma handleCoreDamage_survives:
  "1 < health s \<Longrightarrow>
     health (handleCoreDamage s) = health s - 1 \<and> phase (handleCoreDamage s) = phase s"
  by (simp add: handleCoreDamage_def Let_def)

lemma dead_is_frozen:
  "phase s \<noteq> PLAYING \<Longrightarrow>
     gameLoop env ts s = s \<and> handleArenaTap env tapX tapY s = s"
  by (simp add: gameLoop_def handleArenaTap_def)

lemma sessionLast_fields:
  "health sessionLast = 1" "phase sessionLast = PLAYING"
  "balls sessionLast = [ballLow, ballIn]" "blocks sessionLast = [blkA, blkB]"
  "lastFrame sessionLast = 20800"
  "lastEnergyRegen sessionLast = 20000" "lastEscalation sessionLast = 20000"
  "speed sessionLast = 4.5" "score sessionLast = 0"
  by (simp_all add: sessionLast_def startGame_def INITIAL_SPEED_def)

lemma sessionLast_first_step:
  "health (stepBall env0 1 0 (sessionLast\<lparr>lastFrame := 20816.67\<rparr>)) = 0
   \<and> phase (stepBall env0 1 0 (sessionLast\<lparr>lastFrame := 20816.67\<rparr>)) = DEAD
   \<and> blocks (stepBall env0 1 0 (sessionLast\<lparr>lastFrame := 20816.67\<rparr>)) = [blkA, blkB]
   \<and> score (stepBall env0 1 0 (sessionLast\<lparr>lastFrame := 20816.67\<rparr>)) = 0
   \<and> y (balls (stepBall env0 1 0 (sessionLast\<lparr>lastFrame := 20816.67\<rparr>)) ! 0) = 53
   \<and> balls (stepBall env0 1 0 (sessionLast\<lparr>lastFrame := 20816.67\<rparr>)) ! 1 = ballIn"
  by (simp add: stepBall_def Let_def sessionLast_fields resolveWalls_def integrate_def
      handleCoreDamage_def ballLow_def respawn_fields)

lemma ballIn_moved:
  "resolveWalls env0 (integrate 1 ballIn) = ballIn\<lparr>x := 527 / 10, y := 582 / 5\<rparr>"
  by (simp add: resolveWalls_def integrate_def ballIn_def Let_def)

text \<open>
  The collision test for that ball and \<open>blkA\<close>, operation by operation in doubles: the
  offsets 2.7 and 8.4, their squares and the sum, about 77.85, which is below 169.
\<close>

lemma moved_dx: "round64 (27 / 10) = 3039929748475085 / 1125899906842624"
  using round64_at [of 51 "27 / 10"] by (simp add: roundHalfEven_def)

lemma moved_dy: "round64 (42 / 5) = 4728779608739021 / 562949953421312"
  using round64_at [of 49 "42 / 5"] by (simp add: roundHalfEven_def)

lemma moved_dxdx: "round64 (9241172875663793552882865757225 / 1267650600228229401496703205376) = 4103905160441365 / 562949953421312"
  using round64_at [of 50 "9241172875663793552882865757225 / 1267650600228229401496703205376"] by (simp add: roundHalfEven_def)

lemma moved_dydy: "round64 (22361356588025968533913688038441 / 316912650057057350374175801344) = 1241304647293993 / 17592186044416"
  using round64_at [of 46 "22361356588025968533913688038441 / 316912650057057350374175801344"] by (simp add: roundHalfEven_def)

lemma moved_sum: "round64 (43825653873849141 / 562949953421312) = 5478206734231143 / 70368744177664"
  using round64_at [of 46 "43825653873849141 / 562949953421312"] by (simp add: roundHalfEven_def)

lemma ballIn_moved_hits_blkA: "hits (resolveWalls env0 (integrate 1 ballIn)) blkA"
  unfolding ballIn_moved
  by (simp add: hits_iff offsetX_def offsetY_def nearX_def nearY_def blk_fields ball_fields
      round64_numeral moved_dx moved_dy moved_dxdx moved_dydy moved_sum)

lemma ballIn_moved_stays: 
  "\<not> arenaH env0 \<le> y (resolveWalls env0 (integrate 1 ballIn))
        + radius (resolveWalls env0 (integrate 1 ballIn))"
  by (simp add: resolveWalls_def integrate_def ballIn_def Let_def)

lemma stepBall_hit:
  assumes "\<not> arenaH env \<le> y (resolveWalls env (integrate factor (balls s ! bi)))
        + radius (resolveWalls env (integrate factor (balls s ! bi)))"
    and "hitBlock (resolveWalls env (integrate factor (balls s ! bi))) 0 (blocks s) = Some i"
  shows "stepBall env factor bi s =
     s\<lparr>balls := (balls s)[bi := bounce (resolveWalls env (integrate factor (balls s ! bi)))
                                   (blocks s ! i)],
       blocks := splice1 i (blocks s),
       score := score s + 10,
       haptics := haptics s @ [ImpactHeavy]\<rparr>"
  using assms by (simp add: stepBall_def Let_def)

lemma sessionLast_second_step:
  "blocks (stepBall env0 1 1 (stepBall env0 1 0 (sessionLast\<lparr>lastFrame := 20816.67\<rparr>)))
     = [blkB]
   \<and> score (stepBall env0 1 1 (stepBall env0 1 0 (sessionLast\<lparr>lastFrame := 20816.67\<rparr>)))
     = 10
   \<and> phase (stepBall env0 1 1 (stepBall env0 1 0 (sessionLast\<lparr>lastFrame := 20816.67\<rparr>)))
     = DEAD
   \<and> health (stepBall env0 1 1 (stepBall env0 1 0 (sessionLast\<lparr>lastFrame := 20816.67\<rparr>)))
     = 0
   \<and> y (balls (stepBall env0 1 1 (stepBall env0 1 0 (sessionLast\<lparr>lastFrame := 20816.67\<rparr>)))
          ! 0) = 53"
proof -
  let ?s1 = "stepBall env0 1 0 (sessionLast\<lparr>lastFrame := 20816.67\<rparr>)"
  have s1: "health ?s1 = 0" "phase ?s1 = DEAD" "blocks ?s1 = [blkA, blkB]" "score ?s1 = 0"
    "y (balls ?s1 ! 0) = 53" "balls ?s1 ! 1 = ballIn"
    using sessionLast_first_step by simp_all
  have hit: "hitBlock (resolveWalls env0 (integrate 1 (balls ?s1 ! 1))) 0 (blocks ?s1) = Some 0"
    unfolding s1 using ballIn_moved_hits_blkA by simp
  have stay: "\<not> arenaH env0 \<le> y (resolveWalls env0 (integrate 1 (balls ?s1 ! 1)))
        + radius (resolveWalls env0 (integrate 1 (balls ?s1 ! 1)))"
    unfolding s1 by (rule ballIn_moved_stays)
  show ?thesis
    unfolding stepBall_hit [OF stay hit]
    using s1 by (simp add: splice1_def)
qed

lemma sessionLast_frame:
  "gameLoop env0 20816.67 sessionLast
     = stepBall env0 1 1 (stepBall env0 1 0 (sessionLast\<lparr>lastFrame := 20816.67\<rparr>))"
proof -
  have "frameFactor (2081667 / 100) 20800 = 1"
    by (simp add: frameFactor_def Let_def)
  then show ?thesis
    by (simp add: gameLoop_playing sessionLast_fields regenStep_def escalationStep_def
        ENERGY_REGEN_MS_def ESCALATION_MS_def ballLoop_step ballLoop_done)
qed

text \<open>
  Claim C1 says that once a breach brings health from 1 to 0 the session is Terminated
  and nothing of the same frame is applied afterwards: no respawn, no block removed, no
  score. In the frame at timestamp 20816.67 of \<open>sessionLast\<close>, the first ball breaches:
  the iteration for it ends with health 0 and phase \<open>DEAD\<close>, and already holds the ball
  respawned at \<open>y = 53\<close>; the blocks and the score are still as before. The loop goes on
  to the second ball of the dead session, which hits \<open>blkA\<close>: the state after the frame
  has lost that block and has score 10.
\<close>

theorem terminal_frame_keeps_running:
  "health sessionLast = 1 \<and> phase sessionLast = PLAYING
   \<and> blocks sessionLast = [blkA, blkB] \<and> score sessionLast = 0
   \<and> y (balls sessionLast ! 0) = 585
   \<and> health (stepBall env0 1 0 (sessionLast\<lparr>lastFrame := 20816.67\<rparr>)) = 0
   \<and> phase (stepBall env0 1 0 (sessionLast\<lparr>lastFrame := 20816.67\<rparr>)) = DEAD
   \<and> blocks (stepBall env0 1 0 (sessionLast\<lparr>lastFrame := 20816.67\<rparr>)) = [blkA, blkB]
   \<and> score (stepBall env0 1 0 (sessionLast\<lparr>lastFrame := 20816.67\<rparr>)) = 0
   \<and> gameLoop env0 20816.67 sessionLast
       = stepBall env0 1 1 (stepBall env0 1 0 (sessionLast\<lparr>lastFrame := 20816.67\<rparr>))
   \<and> phase (gameLoop env0 20816.67 sessionLast) = DEAD
   \<and> health (gameLoop env0 20816.67 sessionLast) = 0
   \<and> y (balls (gameLoop env0 20816.67 sessionLast) ! 0) = 53
   \<and> blocks (gameLoop env0 20816.67 sessionLast) = [blkB]
   \<and> score (gameLoop env0 20816.67 sessionLast) = 10"
  unfolding sessionLast_frame
  using sessionLast_first_step sessionLast_second_step
  by (simp add: sessionLast_fields ballLow_def)

end
